theory Spec2Isabelle
  imports Complex_Main
begin

section \<open>Numeric vectors\<close>

text \<open>
  The behaviours work on numpy arrays of Python floats. The neuron dynamics, the traces
  and the forward pass are embedded with the scalars as \<^typ>\<open>real\<close>: there rounding,
  infinities and NaN are not modelled, and a division by a zero time constant (which
  numpy answers with \<open>inf\<close> or \<open>nan\<close>) is HOL's \<open>x / 0 = 0\<close>, so a statement below that
  divides by a time constant describes the code for non-zero time constants only. The
  weight update of the plasticity rule is embedded with the special values of float64
  (see \<open>float64\<close> below), since what it guarantees depends on them. A population's vectors (\<open>v\<close>, \<open>I\<close>,
  \<open>spikes\<close>, \<open>trace\<close>, \<open>A\<close>) are one-dimensional arrays, modelled as lists. numpy raises
  \<open>ValueError\<close> when two operands cannot be broadcast together; that is the \<open>Inl\<close>
  branch of every operation below.
\<close>

datatype error = ValueError | IndexError | ZeroDivisionError

text \<open>A binary ufunc on two one-dimensional arrays: equal lengths, or one of length 1.\<close>

definition broadcast2 :: "('a \<Rightarrow> 'b \<Rightarrow> 'c) \<Rightarrow> 'a list \<Rightarrow> 'b list \<Rightarrow> error + 'c list" where
  "broadcast2 f xs ys =
     (if length xs = length ys then Inr (map2 f xs ys)
      else if length xs = 1 then Inr (map (f (hd xs)) ys)
      else if length ys = 1 then Inr (map (\<lambda>x. f x (hd ys)) xs)
      else Inl ValueError)"

text \<open>
  The in-place \<open>xs += ds\<close>: the result keeps the shape of \<open>xs\<close>, so \<open>ds\<close> must have
  that length or length 1.
\<close>

definition iadd :: "real list \<Rightarrow> real list \<Rightarrow> error + real list" where
  "iadd xs ds =
     (if length ds = length xs then Inr (map2 (+) xs ds)
      else if length ds = 1 then Inr (map (\<lambda>x. x + hd ds) xs)
      else Inl ValueError)"

text \<open>A boolean vector in arithmetic counts as 0 and 1.\<close>

definition as_float :: "bool list \<Rightarrow> real list" where
  "as_float bs = map of_bool bs"

section \<open>Neuron populations\<close>

text \<open>
  The attributes of a \<open>NeuronGroup\<close> that the behaviours read and write. The
  configuration scalars are copied onto the population by the host
  (\<open>set_init_attrs_as_variables\<close>) before \<open>set_variables\<close> runs; \<open>s\<close> is the activity
  vector that \<open>Conv2D\<close> reads.
\<close>

record neurons =
  size_n :: nat
  v :: "real list"
  I :: "real list"
  spikes :: "bool list"
  s :: "real list"
  trace :: "real list"
  A :: "real list"
  tau :: real
  v_rest :: real
  v_reset :: real
  threshold :: real
  R :: real
  sharpness :: real
  theta_rh :: real
  alpha :: real
  beta :: real
  tau_a :: real
  dt :: real

text \<open>
  \<open>get_neuron_vec(mode)\<close> is the host's: a vector of the population's size filled as
  the mode says, 1 for \<open>"ones()"\<close> and 0 for \<open>"zeros()"\<close>. The fill value is the first
  argument here; where the source passes no mode, the host's default fill is a
  parameter of the model.
\<close>

definition get_neuron_vec :: "real \<Rightarrow> neurons \<Rightarrow> real list" where
  "get_neuron_vec fill n = replicate (size_n n) fill"

section \<open>PymoNNtoBehaviors/neurons/LIFs.py\<close>

datatype variant = LIF | ELIF | AELIF

text \<open>
  \<open>LIF._initialize\<close>. The spike vector starts as the zero vector; as an indicator the
  float 0 is \<open>False\<close>.
\<close>

definition LIF_initialize :: "neurons \<Rightarrow> neurons" where
  "LIF_initialize n =
     n\<lparr>v := map (\<lambda>x. x * v_rest n) (get_neuron_vec 1 n),
       spikes := map (\<lambda>x. x \<noteq> 0) (get_neuron_vec 0 n)\<rparr>"

fun set_variables :: "variant \<Rightarrow> neurons \<Rightarrow> neurons" where
  "set_variables LIF n = LIF_initialize n"
| "set_variables ELIF n = LIF_initialize n"
| "set_variables AELIF n = (let n1 = LIF_initialize n in n1\<lparr>A := get_neuron_vec 0 n1\<rparr>)"

text \<open>\<open>LIF._dv_dt\<close>: \<open>delta_v = v_rest - v\<close>, \<open>ri = R * I\<close>, the sum of both.\<close>

definition LIF_dv_dt :: "neurons \<Rightarrow> error + real list" where
  "LIF_dv_dt n =
     (let delta_v = map (\<lambda>x. v_rest n - x) (v n);
          ri = map (\<lambda>x. R n * x) (I n)
      in broadcast2 (+) delta_v ri)"

text \<open>\<open>ELIF._dv_dt\<close>, inherited by \<open>AELIF\<close>: the base term plus the exponential one.\<close>

definition ELIF_dv_dt :: "neurons \<Rightarrow> error + real list" where
  "ELIF_dv_dt n =
     (case LIF_dv_dt n of
        Inl e \<Rightarrow> Inl e
      | Inr simple \<Rightarrow>
          (let v_m = map (\<lambda>x. (x - theta_rh n) / sharpness n) (v n);
               nonlinear_f = map (\<lambda>x. sharpness n * exp x) v_m
           in broadcast2 (+) simple nonlinear_f))"

fun dv_dt :: "variant \<Rightarrow> neurons \<Rightarrow> error + real list" where
  "dv_dt LIF n = LIF_dv_dt n"
| "dv_dt ELIF n = ELIF_dv_dt n"
| "dv_dt AELIF n = ELIF_dv_dt n"

text \<open>\<open>LIF._fire\<close>: detect on the current voltage, then reset the neurons that spiked.\<close>

definition fire :: "neurons \<Rightarrow> neurons" where
  "fire n =
     (let sp = map (\<lambda>x. x \<ge> threshold n) (v n)
      in n\<lparr>spikes := sp, v := map2 (\<lambda>x b. if b then v_reset n else x) (v n) sp\<rparr>)"

text \<open>\<open>AELIF._dA_dt\<close>.\<close>

definition dA_dt :: "neurons \<Rightarrow> error + real list" where
  "dA_dt n =
     (let spike_adaptation = map (\<lambda>x. beta n * tau_a n * x) (as_float (spikes n));
          sub_thresh_adaptation = map (\<lambda>x. alpha n * (x - v_rest n)) (v n)
      in case broadcast2 (+) sub_thresh_adaptation spike_adaptation of
           Inl e \<Rightarrow> Inl e
         | Inr t \<Rightarrow> broadcast2 (-) t (A n))"

text \<open>
  \<open>new_iteration\<close> of the three classes. \<open>LIF\<close> and \<open>ELIF\<close> have the same body and differ
  in the \<open>_dv_dt\<close> it dispatches to; \<open>AELIF\<close> subtracts \<open>R * A\<close> and then updates \<open>A\<close>.
\<close>

text \<open>The line \<open>neurons.v += dv / neurons.tau\<close>, shared by the three bodies.\<close>

definition integrate :: "neurons \<Rightarrow> real list \<Rightarrow> error + neurons" where
  "integrate n d =
     (case iadd (v n) (map (\<lambda>x. x / tau n) d) of
        Inl e \<Rightarrow> Inl e
      | Inr v' \<Rightarrow> Inr (n\<lparr>v := v'\<rparr>))"

fun new_iteration :: "variant \<Rightarrow> neurons \<Rightarrow> error + neurons" where
  "new_iteration AELIF n =
     (let n1 = fire n in
      case dv_dt AELIF n1 of
        Inl e \<Rightarrow> Inl e
      | Inr d \<Rightarrow>
          (case broadcast2 (-) d (map (\<lambda>a. R n1 * a) (A n1)) of
             Inl e \<Rightarrow> Inl e
           | Inr d' \<Rightarrow>
               (case integrate n1 d' of
                  Inl e \<Rightarrow> Inl e
                | Inr n2 \<Rightarrow>
                    (case dA_dt n2 of
                       Inl e \<Rightarrow> Inl e
                     | Inr a \<Rightarrow> Inr (n2\<lparr>A := map (\<lambda>x. x / tau_a n2) a\<rparr>)))))"
| "new_iteration var n =
     (let n1 = fire n in
      case dv_dt var n1 of
        Inl e \<Rightarrow> Inl e
      | Inr d \<Rightarrow> integrate n1 d)"

section \<open>neurons/LIF.py\<close>

text \<open>
  The single-class file. \<open>set_variables\<close> calls \<open>get_neuron_vec()\<close> with no mode, so the
  host's default fill \<open>dflt\<close> decides what it allocates.
\<close>

definition neurons_LIF_set_variables :: "real \<Rightarrow> neurons \<Rightarrow> neurons" where
  "neurons_LIF_set_variables dflt n =
     n\<lparr>v := map (\<lambda>x. x * v_rest n) (get_neuron_vec dflt n),
       spikes := map (\<lambda>x. x > threshold n) (get_neuron_vec dflt n),
       dt := 1\<rparr>"

text \<open>The first two lines of its \<open>new_iteration\<close>: the voltage after integration.\<close>

definition neurons_LIF_integrated :: "neurons \<Rightarrow> error + real list" where
  "neurons_LIF_integrated n =
     (case broadcast2 (+) (map (\<lambda>x. v_rest n - x) (v n)) (map (\<lambda>x. R n * x) (I n)) of
        Inl e \<Rightarrow> Inl e
      | Inr dv \<Rightarrow> iadd (v n) (map (\<lambda>x. x * neurons.dt n / tau n) dv))"

definition neurons_LIF_new_iteration :: "neurons \<Rightarrow> error + neurons" where
  "neurons_LIF_new_iteration n =
     (case neurons_LIF_integrated n of
        Inl e \<Rightarrow> Inl e
      | Inr v1 \<Rightarrow>
          (let sp = map (\<lambda>x. x \<ge> threshold n) v1
           in Inr (n\<lparr>v := map2 (\<lambda>x b. if b then v_reset n else x) v1 sp, spikes := sp\<rparr>)))"

text \<open>Running \<open>k\<close> ticks, stopping at the first error.\<close>

fun ticks :: "nat \<Rightarrow> neurons \<Rightarrow> error + neurons" where
  "ticks 0 n = Inr n"
| "ticks (Suc k) n =
     (case neurons_LIF_new_iteration n of Inl e \<Rightarrow> Inl e | Inr n' \<Rightarrow> ticks k n')"

text \<open>Running \<open>k\<close> ticks of a class of \<open>LIFs.py\<close>, stopping at the first error.\<close>

fun LIFs_ticks :: "variant \<Rightarrow> nat \<Rightarrow> neurons \<Rightarrow> error + neurons" where
  "LIFs_ticks var 0 n = Inr n"
| "LIFs_ticks var (Suc k) n =
     (case new_iteration var n of Inl e \<Rightarrow> Inl e | Inr n' \<Rightarrow> LIFs_ticks var k n')"

section \<open>N-dimensional arrays\<close>

text \<open>
  A weight tensor, and every intermediate of the convolution, is an array with a shape
  and its elements in row-major order.
\<close>

record 'a ndarray =
  shape :: "nat list"
  data :: "'a list"

definition vec :: "'a list \<Rightarrow> 'a ndarray" where
  "vec xs = \<lparr>shape = [length xs], data = xs\<rparr>"

text \<open>
  numpy's broadcasting rule: shapes are aligned at their last axis; two extents are
  compatible when they are equal or one of them is 1.
\<close>

definition broadcast_dim :: "nat \<Rightarrow> nat \<Rightarrow> nat option" where
  "broadcast_dim a b =
     (if a = b then Some a else if a = 1 then Some b else if b = 1 then Some a else None)"

fun broadcast_rev :: "nat list \<Rightarrow> nat list \<Rightarrow> nat list option" where
  "broadcast_rev [] ys = Some ys"
| "broadcast_rev xs [] = Some xs"
| "broadcast_rev (x # xs) (y # ys) =
     (case broadcast_dim x y of
        None \<Rightarrow> None
      | Some d \<Rightarrow> map_option ((#) d) (broadcast_rev xs ys))"

definition broadcast_shapes :: "nat list \<Rightarrow> nat list \<Rightarrow> nat list option" where
  "broadcast_shapes a b = map_option rev (broadcast_rev (rev a) (rev b))"

text \<open>All indices of a shape in row-major order, and the position of an index.\<close>

fun indices :: "nat list \<Rightarrow> nat list list" where
  "indices [] = [[]]"
| "indices (d # ds) = concat (map (\<lambda>i. map ((#) i) (indices ds)) [0..<d])"

fun offset :: "nat list \<Rightarrow> nat list \<Rightarrow> nat" where
  "offset (d # ds) (i # js) = i * prod_list ds + offset ds js"
| "offset _ _ = 0"

definition nd_get :: "'a ndarray \<Rightarrow> nat list \<Rightarrow> 'a" where
  "nd_get a idx = data a ! offset (shape a) idx"

text \<open>
  Reading an operand at an index of the broadcast result: the leading axes the operand
  lacks are dropped, and an axis of extent 1 is read at 0.
\<close>

definition bget :: "'a ndarray \<Rightarrow> nat list \<Rightarrow> 'a" where
  "bget a idx =
     nd_get a (map2 (\<lambda>d i. if d = 1 then 0 else i) (shape a)
                 (drop (length idx - length (shape a)) idx))"

definition nd_binop :: "('a \<Rightarrow> 'b \<Rightarrow> 'c) \<Rightarrow> 'a ndarray \<Rightarrow> 'b ndarray \<Rightarrow> error + 'c ndarray" where
  "nd_binop f a b =
     (case broadcast_shapes (shape a) (shape b) of
        None \<Rightarrow> Inl ValueError
      | Some sh \<Rightarrow> Inr \<lparr>shape = sh, data = map (\<lambda>idx. f (bget a idx) (bget b idx)) (indices sh)\<rparr>)"

definition nd_map :: "('a \<Rightarrow> 'b) \<Rightarrow> 'a ndarray \<Rightarrow> 'b ndarray" where
  "nd_map f a = \<lparr>shape = shape a, data = map f (data a)\<rparr>"

text \<open>
  \<open>z = np.zeros(shp); z[block] = src\<close> for a block of extents \<open>blk\<close> that starts at
  \<open>starts\<close>: the value must broadcast to the block's shape.
\<close>

definition zeros_with_block :: "nat list \<Rightarrow> nat list \<Rightarrow> nat list \<Rightarrow> real ndarray \<Rightarrow> error + real ndarray" where
  "zeros_with_block shp starts blk src =
     (if broadcast_shapes (shape src) blk \<noteq> Some blk then Inl ValueError
      else Inr \<lparr>shape = shp,
                data = map (\<lambda>idx.
                  if list_all (\<lambda>(i, s0, b). s0 \<le> i \<and> i < s0 + b) (zip idx (zip starts blk))
                  then bget src (map2 (-) idx starts) else 0) (indices shp)\<rparr>)"

text \<open>
  \<open>np.lib.stride_tricks.sliding_window_view(x, window_shape)\<close> with \<open>axis=None\<close>: one
  window extent for every axis of \<open>x\<close>, none larger than the axis; the view has the
  trimmed shape followed by the window shape.
\<close>

definition sliding_window_view :: "'a ndarray \<Rightarrow> nat list \<Rightarrow> error + 'a ndarray" where
  "sliding_window_view x window_shape =
     (if length window_shape \<noteq> length (shape x) then Inl ValueError
      else if list_ex (\<lambda>(d, w). d < w) (zip (shape x) window_shape) then Inl ValueError
      else
        (let k = length (shape x);
             out_shape = map2 (\<lambda>d w. d + 1 - w) (shape x) window_shape @ window_shape
         in Inr \<lparr>shape = out_shape,
                 data = map (\<lambda>idx. nd_get x (map2 (+) (take k idx) (drop k idx)))
                          (indices out_shape)\<rparr>))"

text \<open>\<open>xs.reshape((1, n, -1))\<close> of a vector.\<close>

definition reshape_1_n :: "'a list \<Rightarrow> nat \<Rightarrow> error + 'a ndarray" where
  "reshape_1_n xs n =
     (if n = 0 \<or> length xs mod n \<noteq> 0 then Inl ValueError
      else Inr \<lparr>shape = [1, n, length xs div n], data = xs\<rparr>)"

text \<open>\<open>int(np.sqrt(n))\<close>: the number of \<open>k \<ge> 1\<close> with \<open>k * k \<le> n\<close>.\<close>

definition int_sqrt :: "nat \<Rightarrow> nat" where
  "int_sqrt n = length (filter (\<lambda>k. k * k \<le> n) [1..<Suc n])"

section \<open>Floats with special values\<close>

text \<open>
  The values of a float64 as far as the weight update needs them: the finite ones, the
  two infinities and NaN. Finite results are kept exact (rounding and the sign of zero
  are not modelled); a result beyond the largest finite float64, \<open>2^1024 - 2^971\<close>,
  overflows to an infinity; \<open>inf * 0\<close> and \<open>inf - inf\<close> are NaN, and NaN propagates.
\<close>

datatype float64 = Finite real | PosInf | NegInf | NaN

definition float_max :: real where
  "float_max = 2 ^ 1024 - 2 ^ 971"

definition of_exact :: "real \<Rightarrow> float64" where
  "of_exact x = (if x > float_max then PosInf else if x < - float_max then NegInf else Finite x)"

fun f_add :: "float64 \<Rightarrow> float64 \<Rightarrow> float64" where
  "f_add NaN y = NaN"
| "f_add x NaN = NaN"
| "f_add PosInf NegInf = NaN"
| "f_add NegInf PosInf = NaN"
| "f_add PosInf y = PosInf"
| "f_add x PosInf = PosInf"
| "f_add NegInf y = NegInf"
| "f_add x NegInf = NegInf"
| "f_add (Finite a) (Finite b) = of_exact (a + b)"

fun f_mul :: "float64 \<Rightarrow> float64 \<Rightarrow> float64" where
  "f_mul NaN y = NaN"
| "f_mul x NaN = NaN"
| "f_mul (Finite a) (Finite b) = of_exact (a * b)"
| "f_mul (Finite a) PosInf = (if a = 0 then NaN else if a > 0 then PosInf else NegInf)"
| "f_mul (Finite a) NegInf = (if a = 0 then NaN else if a > 0 then NegInf else PosInf)"
| "f_mul PosInf (Finite b) = (if b = 0 then NaN else if b > 0 then PosInf else NegInf)"
| "f_mul NegInf (Finite b) = (if b = 0 then NaN else if b > 0 then NegInf else PosInf)"
| "f_mul PosInf PosInf = PosInf"
| "f_mul PosInf NegInf = NegInf"
| "f_mul NegInf PosInf = NegInf"
| "f_mul NegInf NegInf = PosInf"

text \<open>The comparison \<open>x <= y\<close>: false as soon as one side is NaN.\<close>

fun f_le :: "float64 \<Rightarrow> float64 \<Rightarrow> bool" where
  "f_le NaN y = False"
| "f_le x NaN = False"
| "f_le NegInf y = True"
| "f_le x PosInf = True"
| "f_le (Finite a) (Finite b) = (a \<le> b)"
| "f_le x y = False"

text \<open>\<open>np.maximum\<close> and \<open>np.minimum\<close> on two elements: NaN if either is NaN.\<close>

definition f_maximum :: "float64 \<Rightarrow> float64 \<Rightarrow> float64" where
  "f_maximum x y = (if x = NaN \<or> y = NaN then NaN else if f_le x y then y else x)"

definition f_minimum :: "float64 \<Rightarrow> float64 \<Rightarrow> float64" where
  "f_minimum x y = (if x = NaN \<or> y = NaN then NaN else if f_le x y then x else y)"

text \<open>
  \<open>np.clip(a, a_min, a_max)\<close> is \<open>minimum(a_max, maximum(a, a_min))\<close>, elementwise; the
  bounds are the finite scalars of the configuration.
\<close>

definition clip :: "float64 ndarray \<Rightarrow> real \<Rightarrow> real \<Rightarrow> float64 ndarray" where
  "clip a a_min a_max =
     nd_map (\<lambda>x. f_minimum (Finite a_max) (f_maximum x (Finite a_min))) a"

text \<open>Within the bounds: a comparison that NaN fails on both sides.\<close>

definition in_bounds :: "real \<Rightarrow> real \<Rightarrow> float64 \<Rightarrow> bool" where
  "in_bounds lo hi x = (f_le (Finite lo) x \<and> f_le x (Finite hi))"

section \<open>Synaptic projections\<close>

text \<open>
  A \<open>SynapseGroup\<close> refers to its two populations; a recurrent projection has the same
  population on both sides. The populations live in a store and the projection holds
  their keys, so that an in-place update through \<open>synapses.src\<close> is seen through
  \<open>synapses.dst\<close> when both are the same object. \<open>is1d\<close> is the attribute that
  \<open>Conv2D\<close> keeps on itself. The element type of the weights is a parameter: the
  forward pass is stated on real weights, the plasticity update on \<open>float64\<close> weights.
\<close>

type_synonym store = "nat \<Rightarrow> neurons"

record 'a synapses =
  src :: nat
  dst :: nat
  W :: "'a ndarray"
  w_min :: real
  w_max :: real
  tags :: "string list"
  kernel_size :: "nat \<times> nat"
  n_filters :: nat
  pad :: "nat \<times> nat"
  is1d :: bool
  tau_plus :: real
  tau_minus :: real
  a_plus :: real
  a_minus :: real
  dt :: real

section \<open>PymoNNtoBehaviors/learning/STDP.py\<close>

text \<open>
  \<open>STDP.set_variables\<close>: both traces come from \<open>get_neuron_vec()\<close> with no mode, so from
  the host's default fill.
\<close>

definition STDP_set_variables :: "real \<Rightarrow> store \<Rightarrow> 'a synapses \<Rightarrow> store" where
  "STDP_set_variables dflt st sy =
     (let st1 = st(src sy := (st (src sy))\<lparr>trace := get_neuron_vec dflt (st (src sy))\<rparr>)
      in st1(dst sy := (st1 (dst sy))\<lparr>trace := get_neuron_vec dflt (st1 (dst sy))\<rparr>))"

text \<open>
  The first four lines of \<open>new_iteration\<close>: \<open>dx\<close> and \<open>dy\<close> are computed from the old
  traces, then each trace is updated in place.
\<close>

definition update_traces :: "store \<Rightarrow> 'a synapses \<Rightarrow> error + store" where
  "update_traces st sy =
     (case broadcast2 (+) (map (\<lambda>x. - x / tau_plus sy) (trace (st (src sy))))
             (as_float (spikes (st (src sy)))) of
        Inl e \<Rightarrow> Inl e
      | Inr dx \<Rightarrow>
     (case broadcast2 (+) (map (\<lambda>x. - x / tau_minus sy) (trace (st (dst sy))))
             (as_float (spikes (st (dst sy)))) of
        Inl e \<Rightarrow> Inl e
      | Inr dy \<Rightarrow>
     (case iadd (trace (st (src sy))) (map (\<lambda>x. x * dt sy) dx) of
        Inl e \<Rightarrow> Inl e
      | Inr tr_src \<Rightarrow>
     (let st1 = st(src sy := (st (src sy))\<lparr>trace := tr_src\<rparr>) in
      case iadd (trace (st1 (dst sy))) (map (\<lambda>x. x * dt sy) dy) of
        Inl e \<Rightarrow> Inl e
      | Inr tr_dst \<Rightarrow> Inr (st1(dst sy := (st1 (dst sy))\<lparr>trace := tr_dst\<rparr>))))))"

text \<open>
  The \<open>else\<close> branch: the two products of a trace vector with a spike vector, as
  floats: \<open>-a_minus * dst.trace * src.spikes\<close> and \<open>a_plus * src.trace * dst.spikes\<close>,
  each evaluated from the left.
\<close>

definition dense_update :: "store \<Rightarrow> float64 synapses \<Rightarrow> error + float64 ndarray \<times> float64 ndarray" where
  "dense_update st sy =
     (case broadcast2 f_mul (map (\<lambda>x. f_mul (Finite (- a_minus sy)) (Finite x)) (trace (st (dst sy))))
             (map Finite (as_float (spikes (st (src sy))))) of
        Inl e \<Rightarrow> Inl e
      | Inr dw_minus \<Rightarrow>
     (case broadcast2 f_mul (map (\<lambda>x. f_mul (Finite (a_plus sy)) (Finite x)) (trace (st (src sy))))
             (map Finite (as_float (spikes (st (dst sy))))) of
        Inl e \<Rightarrow> Inl e
      | Inr dw_plus \<Rightarrow> Inr (vec dw_minus, vec dw_plus)))"

text \<open>
  \<open>STDP.conv2d_update\<close>. The padded arrays have four axes; \<open>kernel_size\<close> is the pair
  that \<open>Conv2D\<close> reads as \<open>kernel_size[0]\<close> and \<open>kernel_size[1]\<close>.
\<close>

definition conv2d_update :: "store \<Rightarrow> float64 synapses \<Rightarrow> error + float64 ndarray \<times> float64 ndarray" where
  "conv2d_update st sy =
     (let src_spikes = as_float (spikes (st (src sy)));
          src_trace = trace (st (src sy));
          dst_spikes = as_float (spikes (st (dst sy)));
          dst_trace = trace (st (dst sy));
          p0 = fst (pad sy);
          p1 = snd (pad sy);
          r = int_sqrt (size_n (st (src sy)));
          h_in = r + 2 * p0;
          w_in = r + 2 * p1
      in if h_in * w_in = 0 then Inl ZeroDivisionError
      else
     (let c_in = size_n (st (src sy)) div (h_in * w_in) in
      case zeros_with_block [1, h_in, w_in, c_in] [0, p0, p1, 0] [1, r, r, c_in] (vec src_spikes) of
        Inl e \<Rightarrow> Inl e
      | Inr pre_spikes \<Rightarrow>
     (case zeros_with_block [1, h_in, w_in, c_in] [0, p0, p1, 0] [1, r, r, c_in] (vec src_trace) of
        Inl e \<Rightarrow> Inl e
      | Inr pre_trace \<Rightarrow>
     (case sliding_window_view pre_spikes [fst (kernel_size sy), snd (kernel_size sy)] of
        Inl e \<Rightarrow> Inl e
      | Inr src_spikes_w \<Rightarrow>
     (case sliding_window_view pre_trace [fst (kernel_size sy), snd (kernel_size sy)] of
        Inl e \<Rightarrow> Inl e
      | Inr src_trace_w \<Rightarrow>
     (case reshape_1_n dst_spikes (n_filters sy) of
        Inl e \<Rightarrow> Inl e
      | Inr dst_spikes_r \<Rightarrow>
     (case reshape_1_n dst_trace (n_filters sy) of
        Inl e \<Rightarrow> Inl e
      | Inr dst_trace_r \<Rightarrow>
     (case nd_binop f_mul (nd_map (\<lambda>x. f_mul (Finite (- a_minus sy)) (Finite x)) dst_trace_r)
             (nd_map Finite src_spikes_w) of
        Inl e \<Rightarrow> Inl e
      | Inr dw_minus \<Rightarrow>
     (case nd_binop f_mul (nd_map (\<lambda>x. f_mul (Finite (a_plus sy)) (Finite x)) src_trace_w)
             (nd_map Finite dst_spikes_r) of
        Inl e \<Rightarrow> Inl e
      | Inr dw_plus \<Rightarrow> Inr (dw_minus, dw_plus))))))))))"

text \<open>
  The last statement of \<open>new_iteration\<close>:
  \<open>W = np.clip(W + (dw_plus + dw_minus) * dt, w_min, w_max)\<close>; first its argument, the
  weights before clipping.
\<close>

definition raw_weights :: "float64 synapses \<Rightarrow> float64 ndarray \<times> float64 ndarray \<Rightarrow> error + float64 ndarray" where
  "raw_weights sy dw =
     (case nd_binop f_add (snd dw) (fst dw) of
        Inl e \<Rightarrow> Inl e
      | Inr d \<Rightarrow> nd_binop f_add (W sy) (nd_map (\<lambda>x. f_mul x (Finite (dt sy))) d))"

definition apply_dw :: "float64 synapses \<Rightarrow> float64 ndarray \<times> float64 ndarray \<Rightarrow> error + float64 synapses" where
  "apply_dw sy dw =
     (case raw_weights sy dw of
        Inl e \<Rightarrow> Inl e
      | Inr w \<Rightarrow> Inr (sy\<lparr>W := clip w (w_min sy) (w_max sy)\<rparr>))"

definition STDP_new_iteration :: "store \<Rightarrow> float64 synapses \<Rightarrow> error + store \<times> float64 synapses" where
  "STDP_new_iteration st sy =
     (case update_traces st sy of
        Inl e \<Rightarrow> Inl e
      | Inr st' \<Rightarrow>
     (case (if ''conv2d'' \<in> set (tags sy) then conv2d_update st' sy else dense_update st' sy) of
        Inl e \<Rightarrow> Inl e
      | Inr dw \<Rightarrow>
     (case apply_dw sy dw of
        Inl e \<Rightarrow> Inl e
      | Inr sy' \<Rightarrow> Inr (st', sy'))))"

section \<open>learning/STDP.py\<close>

text \<open>The older file has no convolutional branch; the rest is the same text.\<close>

definition learning_STDP_new_iteration :: "store \<Rightarrow> float64 synapses \<Rightarrow> error + store \<times> float64 synapses" where
  "learning_STDP_new_iteration st sy =
     (case update_traces st sy of
        Inl e \<Rightarrow> Inl e
      | Inr st' \<Rightarrow>
     (case dense_update st' sy of
        Inl e \<Rightarrow> Inl e
      | Inr dw \<Rightarrow>
     (case apply_dw sy dw of
        Inl e \<Rightarrow> Inl e
      | Inr sy' \<Rightarrow> Inr (st', sy'))))"

section \<open>PymoNNtoBehaviors/connections/convolution.py\<close>

text \<open>
  \<open>Conv2D.__conv2d(src, kernels, padding)\<close>. The padded image is a fresh array; the
  strided view \<open>inp[b, i, j, a, c, ch] = img[b, i + a, j + c, ch]\<close> and its contraction
  with the first three axes of \<open>kernels\<close> (\<open>np.tensordot(inp, kernels, axes=3)\<close>) are
  written as the sum over the window. The checks come in the order in which the source
  meets them: a negative output extent fails in \<open>as_strided\<close>, a kernel of fewer than
  three axes or a channel mismatch in \<open>tensordot\<close>.
\<close>

definition Conv2D_conv2d :: "real ndarray \<Rightarrow> real ndarray \<Rightarrow> nat \<times> nat \<Rightarrow> error + real ndarray" where
  "Conv2D_conv2d src_a kernels padding =
     (if length (shape src_a) < 3 then Inl IndexError
      else
     (let h = shape src_a ! 1 + fst padding * 2;
          w = shape src_a ! 2 + snd padding * 2;
          b = shape src_a ! 0;
          ch = last (shape src_a)
      in case zeros_with_block [b, h, w, ch] [0, fst padding, snd padding, 0]
                [b, shape src_a ! 1, shape src_a ! 2, ch] src_a of
        Inl e \<Rightarrow> Inl e
      | Inr img \<Rightarrow>
     (if length (shape kernels) < 2 then Inl IndexError
      else
     (let kh = shape kernels ! 0;
          kw = shape kernels ! 1
      in if h + 1 < kh \<or> w + 1 < kw then Inl ValueError
      else if length (shape kernels) < 3 then Inl IndexError
      else if shape kernels ! 2 \<noteq> ch then Inl ValueError
      else
     (let h_out = h + 1 - kh;
          w_out = w + 1 - kw;
          out_shape = [b, h_out, w_out] @ drop 3 (shape kernels)
      in Inr \<lparr>shape = out_shape,
              data = map (\<lambda>idx.
                sum_list (map (\<lambda>win.
                    nd_get img [idx ! 0, idx ! 1 + win ! 0, idx ! 2 + win ! 1, win ! 2]
                      * nd_get kernels (win @ drop 3 idx))
                  (indices [kh, kw, ch])))
                (indices out_shape)\<rparr>)))))"

text \<open>
  \<open>Conv2D.set_variables\<close>. Before it runs \<open>synapses.pad\<close> is the configuration's flag
  (\<open>pad_requested\<close>); \<open>uniform\<close> stands for the draws of \<open>np.random.uniform\<close>.
  \<open>self.add_tag("conv2d")\<close> tags the behaviour, not the projection: \<open>synapses.tags\<close> is
  left as it is.
\<close>

definition Conv2D_set_variables :: "bool \<Rightarrow> (nat \<Rightarrow> real) \<Rightarrow> store \<Rightarrow> real synapses \<Rightarrow> error + real synapses" where
  "Conv2D_set_variables pad_requested uniform st sy =
     (let r = int_sqrt (size_n (st (src sy)));
          len = length (s (st (src sy)))
      in if len \<noteq> r * r then Inl ValueError
      else if r * r = 0 then Inl ZeroDivisionError
      else
     (let w_shape = [fst (kernel_size sy), snd (kernel_size sy), len div (r * r), n_filters sy]
      in Inr (sy\<lparr>pad := (if pad_requested
                        then (fst (kernel_size sy) div 2, snd (kernel_size sy) div 2)
                        else (0, 0)),
                is1d := (len = r * r),
                W := \<lparr>shape = w_shape, data = map uniform [0..<prod_list w_shape]\<rparr>\<rparr>)))"

text \<open>
  \<open>Conv2D.new_iteration\<close>: the activity \<open>src.s\<close> as an \<open>r \<times> r\<close> image (with a channel
  axis when \<open>is1d\<close>), one batch axis in front, convolved, flattened and added in place to
  the destination's current.
\<close>

definition Conv2D_new_iteration :: "store \<Rightarrow> real synapses \<Rightarrow> error + store \<times> real synapses" where
  "Conv2D_new_iteration st sy =
     (let r = int_sqrt (size_n (st (src sy)));
          xs = s (st (src sy))
      in if length xs \<noteq> r * r then Inl ValueError
      else
     (let inp = \<lparr>shape = (if is1d sy then [1, r, r, 1] else [1, r, r]), data = xs\<rparr>
      in case Conv2D_conv2d inp (W sy) (pad sy) of
        Inl e \<Rightarrow> Inl e
      | Inr out \<Rightarrow>
     (case iadd (I (st (dst sy))) (data out) of
        Inl e \<Rightarrow> Inl e
      | Inr i' \<Rightarrow> Inr (st(dst sy := (st (dst sy))\<lparr>I := i'\<rparr>), sy))))"

section \<open>Concrete configurations\<close>

text \<open>
  The single neuron of the periodic-firing scenario, with the parameters of the
  repository's test (\<open>tests/test_LIFs.py\<close>); the current 80 is the scalar the test
  passes, a vector of one element here.
\<close>

definition scenario :: neurons where
  "scenario =
     \<lparr>size_n = 1, v = [-65], I = [80], spikes = [False], s = [], trace = [0], A = [0],
      tau = 10, v_rest = -65, v_reset = -65, threshold = -55, R = 1, sharpness = 5,
      theta_rh = -58, alpha = 1, beta = 2, tau_a = 1, dt = 1\<rparr>"

text \<open>
  Two populations of two neurons: in population 0 only neuron 0 has spiked, in
  population 1 only neuron 1. A dense plastic projection from 0 to 1 with zero weights.
\<close>

definition pop :: "bool list \<Rightarrow> neurons" where
  "pop sp = scenario\<lparr>size_n := length sp, v := map (\<lambda>_. -65) sp, I := map (\<lambda>_. 0) sp,
     spikes := sp, s := as_float sp, trace := map (\<lambda>_. 0) sp, A := map (\<lambda>_. 0) sp\<rparr>"

definition two_pops :: store where
  "two_pops = (\<lambda>_. pop [])(0 := pop [True, False], 1 := pop [False, True])"

definition dense_projection :: "float64 synapses" where
  "dense_projection =
     \<lparr>src = 0, dst = 1, W = \<lparr>shape = [2, 2], data = map Finite [0, 0, 0, 0]\<rparr>,
      w_min = 0, w_max = 10, tags = [], kernel_size = (1, 1), n_filters = 1, pad = (0, 0),
      is1d = True, tau_plus = 1, tau_minus = 1, a_plus = 2, a_minus = 1, dt = 1\<rparr>"

text \<open>
  Two populations of four neurons, each a 2 by 2 image with one channel, and a
  convolutional projection from 0 to 1 with a 1 by 1 kernel holding 3: once with real
  weights for the forward pass, once with float weights and the tag \<open>conv2d\<close> for the
  plasticity rule, once with float weights and no tag.
\<close>

definition image_pops :: store where
  "image_pops =
     (\<lambda>_. pop [])(0 := pop [True, False, False, True], 1 := pop [False, True, True, False])"

definition conv_projection :: "real synapses" where
  "conv_projection =
     \<lparr>src = 0, dst = 1, W = \<lparr>shape = [1, 1, 1, 1], data = [3]\<rparr>, w_min = 0, w_max = 10,
      tags = [], kernel_size = (1, 1), n_filters = 1, pad = (0, 0), is1d = True,
      tau_plus = 1, tau_minus = 1, a_plus = 2, a_minus = 1, dt = 1\<rparr>"

definition untagged_plastic_projection :: "float64 synapses" where
  "untagged_plastic_projection =
     dense_projection\<lparr>W := \<lparr>shape = [1, 1, 1, 1], data = [Finite 3]\<rparr>\<rparr>"

definition plastic_conv_projection :: "float64 synapses" where
  "plastic_conv_projection = untagged_plastic_projection\<lparr>tags := [''conv2d'']\<rparr>"

text \<open>A source of three neurons in front of the destination of two.\<close>

definition uneven_pops :: store where
  "uneven_pops = two_pops(0 := pop [True, False, True])"

definition uneven_projection :: "float64 synapses" where
  "uneven_projection =
     dense_projection\<lparr>W := \<lparr>shape = [2, 3], data = map Finite [0, 0, 0, 0, 0, 0]\<rparr>\<rparr>"

text \<open>
  A silent pair of populations whose source carries a large trace, \<open>1.2 * 10^308\<close> on
  neuron 0, under a projection with \<open>a_plus = 10\<close> and time constants 4.
\<close>

definition large_trace_pops :: store where
  "large_trace_pops =
     (\<lambda>_. pop [])(0 := (pop [False, False])\<lparr>trace := [12 * 10 ^ 307, 0]\<rparr>,
                    1 := pop [False, False])"

definition large_trace_projection :: "float64 synapses" where
  "large_trace_projection = dense_projection\<lparr>a_plus := 10, tau_plus := 4, tau_minus := 4\<rparr>"

text \<open>
  The dense weight change in the words of the specification: the outer product over
  destination and source indices, row \<open>i\<close> for destination neuron \<open>i\<close>, read on the
  traces and spikes that the store holds.
\<close>

definition spec_dense_dw :: "store \<Rightarrow> float64 synapses \<Rightarrow> float64 ndarray" where
  "spec_dense_dw st sy =
     (let pre = st (src sy); post = st (dst sy)
      in \<lparr>shape = [length (trace post), length (trace pre)],
          data = concat (map (\<lambda>i. map (\<lambda>j.
                   f_add
                     (f_mul (f_mul (Finite (a_plus sy)) (Finite (trace pre ! j)))
                        (Finite (of_bool (spikes post ! i))))
                     (f_mul (f_mul (Finite (- a_minus sy)) (Finite (trace post ! i)))
                        (Finite (of_bool (spikes pre ! j)))))
                   [0..<length (trace pre)]) [0..<length (trace post)])\<rparr>)"

definition spec_dense_W :: "store \<Rightarrow> float64 synapses \<Rightarrow> float64 ndarray" where
  "spec_dense_W st sy =
     \<lparr>shape = shape (W sy),
      data = map2 (\<lambda>w d. f_minimum (Finite (w_max sy))
                           (f_maximum (f_add w (f_mul d (Finite (dt sy)))) (Finite (w_min sy))))
               (data (W sy)) (data (spec_dense_dw st sy))\<rparr>"

text \<open>
  An adaptive neuron above the threshold with a non-zero adaptation current, and its
  state one tick of \<open>AELIF\<close> later.
\<close>

definition adaptive_neuron :: neurons where
  "adaptive_neuron = scenario\<lparr>v := [-49.8], A := [3], tau_a := 2\<rparr>"

definition adaptive_neuron_next :: neurons where
  "adaptive_neuron_next =
     scenario\<lparr>v := [-65 + (80 + 5 * exp (- 7 / 5) - 3) / 10], spikes := [True],
              A := [((-65 + (80 + 5 * exp (- 7 / 5) - 3) / 10 + 65) + 4 - 3) / 2], tau_a := 2\<rparr>"

text \<open>A recurrent dense projection of population 0 onto itself, with a tight upper bound.\<close>

definition recurrent_projection :: "float64 synapses" where
  "recurrent_projection = dense_projection\<lparr>dst := 0, w_max := 1\<rparr>"

section \<open>Evaluation rules\<close>

lemmas vec_eval = broadcast2_def iadd_def as_float_def

lemmas lif_eval = neurons_LIF_new_iteration_def neurons_LIF_integrated_def vec_eval
  scenario_def fire_def LIF_dv_dt_def ELIF_dv_dt_def integrate_def dA_dt_def Let_def

lemmas nd_eval = nd_binop_def broadcast_shapes_def broadcast_dim_def bget_def nd_get_def vec_def
  nd_map_def clip_def zeros_with_block_def sliding_window_view_def reshape_1_n_def

lemmas float_eval = of_exact_def float_max_def f_maximum_def f_minimum_def in_bounds_def

lemmas stdp_eval = STDP_new_iteration_def learning_STDP_new_iteration_def update_traces_def
  dense_update_def raw_weights_def apply_dw_def conv2d_update_def float_eval

lemmas cfg_eval = scenario_def pop_def two_pops_def dense_projection_def conv_projection_def
  image_pops_def uneven_pops_def uneven_projection_def recurrent_projection_def
  untagged_plastic_projection_def plastic_conv_projection_def large_trace_pops_def
  large_trace_projection_def

section \<open>Neuron dynamics\<close>

subsection \<open>The order of detection, reset and integration\<close>

lemma new_iteration_spikes:
  "new_iteration var n = Inr n' \<Longrightarrow> spikes n' = map (\<lambda>x. x \<ge> threshold n) (v n)"
  by (cases var) (auto simp: Let_def integrate_def fire_def split: sum.splits)


lemma fire_reset: "i < length (v n) \<Longrightarrow> spikes (fire n) ! i \<Longrightarrow> v (fire n) ! i = v_reset n"
  by (simp add: fire_def Let_def)

lemma neurons_LIF_reset:
  "neurons_LIF_new_iteration n = Inr n' \<Longrightarrow> i < length (v n') \<Longrightarrow> spikes n' ! i
     \<Longrightarrow> v n' ! i = v_reset n"
  by (auto simp: neurons_LIF_new_iteration_def Let_def split: sum.splits)

text \<open>
  The end of a tick of the base \<open>LIF\<close> class of \<open>LIFs.py\<close>, for a neuron that spiked: the
  reset value plus one integration step from it.
\<close>

lemma LIF_spiking_neuron_end_of_tick:
  assumes "new_iteration LIF n = Inr n'" and "length (I n) = length (v n)"
    and "i < length (v n)" and "spikes n' ! i"
  shows "v n' ! i = v_reset n + (v_rest n - v_reset n + R n * I n ! i) / tau n"
proof -
  have "threshold n \<le> v n ! i"
    using new_iteration_spikes [OF assms(1)] assms(3,4) by simp
  then show ?thesis
    using assms(1-3)
    by (auto simp: Let_def integrate_def fire_def LIF_dv_dt_def vec_eval split: sum.splits if_splits)
qed

text \<open>
  C1, as the specification states it, fails for the classes of \<open>LIFs.py\<close>: a neuron at
  \<open>-49.8\<close> is detected, reset to \<open>-65\<close> and then integrated, so the tick ends with the
  spike flag set and the voltage at \<open>-57\<close>, not at \<open>v_reset\<close>.
\<close>

theorem reset_invariant_counterexample:
  "new_iteration LIF (scenario\<lparr>v := [-49.8]\<rparr>) = Inr (scenario\<lparr>v := [-57], spikes := [True]\<rparr>)
   \<and> spikes (scenario\<lparr>v := [-57], spikes := [True]\<rparr>) ! 0
   \<and> v (scenario\<lparr>v := [-57], spikes := [True]\<rparr>) ! 0
        \<noteq> v_reset (scenario\<lparr>v := [-57], spikes := [True]\<rparr>)"
  by (simp add: lif_eval)

text \<open>
  C1, amended: in \<open>neurons/LIF.py\<close>, which integrates, detects and then resets, a neuron
  whose spike flag is set at the end of a tick has \<open>v[i] = v_reset\<close> at the end of that
  tick. In the classes of \<open>LIFs.py\<close> (\<open>LIF\<close>, \<open>ELIF\<close>, \<open>AELIF\<close>), a neuron whose spike flag
  is set at the end of a tick has \<open>v[i] = v_reset\<close> right after the detection and reset
  step \<open>_fire\<close> of that tick, before the integration that ends the tick.
\<close>

theorem reset_invariant_amended:
  "(neurons_LIF_new_iteration n = Inr n' \<and> i < length (v n') \<and> spikes n' ! i
      \<longrightarrow> v n' ! i = v_reset n)
   \<and> (new_iteration var m = Inr m' \<and> j < length (v m) \<and> spikes m' ! j
      \<longrightarrow> spikes (fire m) ! j \<and> v (fire m) ! j = v_reset m)"
proof (intro conjI impI)
  assume "neurons_LIF_new_iteration n = Inr n' \<and> i < length (v n') \<and> spikes n' ! i"
  then show "v n' ! i = v_reset n"
    by (simp add: neurons_LIF_reset)
next
  assume h: "new_iteration var m = Inr m' \<and> j < length (v m) \<and> spikes m' ! j"
  then have "spikes m' = spikes (fire m)"
    using new_iteration_spikes [of var m m'] by (simp add: fire_def Let_def)
  with h show "spikes (fire m) ! j" by simp
  with h show "v (fire m) ! j = v_reset m"
    by (simp add: fire_reset)
qed

theorem reset_invariant_amended_witness:
  "neurons_LIF_new_iteration (scenario\<lparr>v := [-57], spikes := [False]\<rparr>)
       = Inr (scenario\<lparr>v := [-65], spikes := [True]\<rparr>)
   \<and> 0 < length (v (scenario\<lparr>v := [-65], spikes := [True]\<rparr>))
   \<and> spikes (scenario\<lparr>v := [-65], spikes := [True]\<rparr>) ! 0
   \<and> v (scenario\<lparr>v := [-65], spikes := [True]\<rparr>) ! 0
        = v_reset (scenario\<lparr>v := [-57], spikes := [False]\<rparr>)
   \<and> new_iteration LIF (scenario\<lparr>v := [-49.8]\<rparr>)
        = Inr (scenario\<lparr>v := [-57], spikes := [True]\<rparr>)
   \<and> 0 < length (v (scenario\<lparr>v := [-49.8]\<rparr>))
   \<and> spikes (scenario\<lparr>v := [-57], spikes := [True]\<rparr>) ! 0
   \<and> spikes (fire (scenario\<lparr>v := [-49.8]\<rparr>)) ! 0
   \<and> v (fire (scenario\<lparr>v := [-49.8]\<rparr>)) ! 0 = v_reset (scenario\<lparr>v := [-49.8]\<rparr>)"
proof -
  have a: "neurons_LIF_new_iteration (scenario\<lparr>v := [-57], spikes := [False]\<rparr>)
       = Inr (scenario\<lparr>v := [-65], spikes := [True]\<rparr>)"
    by (simp add: lif_eval)
  have b: "new_iteration LIF (scenario\<lparr>v := [-49.8]\<rparr>)
       = Inr (scenario\<lparr>v := [-57], spikes := [True]\<rparr>)"
    by (simp add: lif_eval)
  show ?thesis
    using a b
      reset_invariant_amended [of "scenario\<lparr>v := [-57], spikes := [False]\<rparr>"
        "scenario\<lparr>v := [-65], spikes := [True]\<rparr>" 0 LIF "scenario\<lparr>v := [-49.8]\<rparr>"
        "scenario\<lparr>v := [-57], spikes := [True]\<rparr>" 0]
    by (simp add: scenario_def)
qed



subsection \<open>The adaptive variant\<close>

text \<open>With vectors of one length, the two assignments of \<open>AELIF.new_iteration\<close> as vectors.\<close>

lemma AELIF_steps:
  assumes "new_iteration AELIF n = Inr n'"
    and "length (I n) = length (v n)" and "length (A n) = length (v n)"
  shows "v n' = map2 (+) (v (fire n))
            (map (\<lambda>x. x / tau n)
               (map2 (-) (map2 (+) (map2 (+) (map (\<lambda>x. v_rest n - x) (v (fire n))) (map (\<lambda>x. R n * x) (I n)))
                                     (map (\<lambda>x. sharpness n * exp x) (map (\<lambda>x. (x - theta_rh n) / sharpness n) (v (fire n)))))
                         (map (\<lambda>a. R n * a) (A n))))"
    and "A n' = map (\<lambda>x. x / tau_a n)
            (map2 (-) (map2 (+) (map (\<lambda>x. alpha n * (x - v_rest n)) (v n'))
                                (map (\<lambda>x. beta n * tau_a n * x) (as_float (spikes (fire n)))))
                      (A n))"
    and "length (v n') = length (v n)"
  using assms
  by (auto simp: Let_def integrate_def fire_def ELIF_dv_dt_def LIF_dv_dt_def dA_dt_def
      broadcast2_def iadd_def as_float_def split: sum.splits if_splits)

text \<open>
  C7: one tick of \<open>AELIF\<close>. The spike indicator is the detection on the voltage the tick
  started with; the voltage is integrated from the reset state with the derivative
  \<open>v_rest - v + R * I + sharpness * exp ((v - theta_rh) / sharpness) - R * A\<close>; then
  \<open>A = (alpha * (v - v_rest) + beta * tau_a * spikes - A) / tau_a\<close> with the integrated
  voltage, this tick's spikes and the adaptation current from before the tick.
\<close>

theorem AELIF_adaptation:
  assumes "new_iteration AELIF n = Inr n'"
    and "length (I n) = length (v n)" and "length (A n) = length (v n)"
    and "i < length (v n)"
  shows "spikes n' ! i = (threshold n \<le> v n ! i)
    \<and> v (fire n) ! i = (if threshold n \<le> v n ! i then v_reset n else v n ! i)
    \<and> v n' ! i = v (fire n) ! i
         + (v_rest n - v (fire n) ! i + R n * I n ! i
             + sharpness n * exp ((v (fire n) ! i - theta_rh n) / sharpness n)
             - R n * A n ! i) / tau n
    \<and> A n' ! i = (alpha n * (v n' ! i - v_rest n)
                   + beta n * tau_a n * of_bool (spikes n' ! i) - A n ! i) / tau_a n"
proof -
  have sp: "spikes n' = spikes (fire n)"
    using new_iteration_spikes [OF assms(1)] by (simp add: fire_def Let_def)
  have lf: "length (v (fire n)) = length (v n)" "length (spikes (fire n)) = length (v n)"
    by (simp_all add: fire_def Let_def)
  have c1: "spikes n' ! i = (threshold n \<le> v n ! i)"
    using new_iteration_spikes [OF assms(1)] assms(4) by simp
  have c2: "v (fire n) ! i = (if threshold n \<le> v n ! i then v_reset n else v n ! i)"
    using assms(4) by (simp add: fire_def Let_def)
  have c3: "v n' ! i = v (fire n) ! i
         + (v_rest n - v (fire n) ! i + R n * I n ! i
             + sharpness n * exp ((v (fire n) ! i - theta_rh n) / sharpness n)
             - R n * A n ! i) / tau n"
    using assms(2-4) lf by (simp add: AELIF_steps(1) [OF assms(1-3)])
  have c4: "A n' ! i = (alpha n * (v n' ! i - v_rest n)
                   + beta n * tau_a n * of_bool (spikes n' ! i) - A n ! i) / tau_a n"
    using assms(2-4) lf AELIF_steps(3) [OF assms(1-3)]
    by (simp add: AELIF_steps(2) [OF assms(1-3)] sp as_float_def)
  show ?thesis using c1 c2 c3 c4 by blast
qed

theorem AELIF_adaptation_witness:
  "new_iteration AELIF adaptive_neuron = Inr adaptive_neuron_next
   \<and> length (I adaptive_neuron) = length (v adaptive_neuron)
   \<and> length (A adaptive_neuron) = length (v adaptive_neuron)
   \<and> 0 < length (v adaptive_neuron)
   \<and> spikes adaptive_neuron_next ! 0 = (threshold adaptive_neuron \<le> v adaptive_neuron ! 0)
   \<and> A adaptive_neuron_next ! 0
       = (alpha adaptive_neuron * (v adaptive_neuron_next ! 0 - v_rest adaptive_neuron)
           + beta adaptive_neuron * tau_a adaptive_neuron * of_bool (spikes adaptive_neuron_next ! 0)
           - A adaptive_neuron ! 0) / tau_a adaptive_neuron"
proof -
  have t: "new_iteration AELIF adaptive_neuron = Inr adaptive_neuron_next"
    by (simp add: adaptive_neuron_def adaptive_neuron_next_def lif_eval)
  have l: "length (I adaptive_neuron) = length (v adaptive_neuron)"
    "length (A adaptive_neuron) = length (v adaptive_neuron)" "0 < length (v adaptive_neuron)"
    by (simp_all add: adaptive_neuron_def scenario_def)
  show ?thesis
    using t l AELIF_adaptation [OF t l] by blast
qed

subsection \<open>The periodic-firing scenario\<close>

lemma scenario_tick_1:
  "neurons_LIF_new_iteration scenario = Inr (scenario\<lparr>v := [-57], spikes := [False]\<rparr>)"
  by (simp add: lif_eval)

lemma scenario_tick_2:
  "neurons_LIF_new_iteration (scenario\<lparr>v := [-57], spikes := [False]\<rparr>)
     = Inr (scenario\<lparr>v := [-65], spikes := [True]\<rparr>)"
  by (simp add: lif_eval)

lemma scenario_tick_3:
  "neurons_LIF_new_iteration (scenario\<lparr>v := [-65], spikes := [True]\<rparr>)
     = Inr (scenario\<lparr>v := [-57], spikes := [False]\<rparr>)"
  by (simp add: lif_eval)

lemma scenario_period:
  "ticks (k + 2) (scenario\<lparr>v := [-57], spikes := [False]\<rparr>)
     = ticks k (scenario\<lparr>v := [-57], spikes := [False]\<rparr>)"
  by (simp add: scenario_tick_2 scenario_tick_3)

text \<open>
  The same neuron under the base \<open>LIF\<close> class of \<open>LIFs.py\<close>, which detects and resets
  before it integrates: the voltage passes the threshold at the end of tick 2 and the
  spike is flagged one tick later.
\<close>

lemma LIFs_tick_1:
  "new_iteration LIF scenario = Inr (scenario\<lparr>v := [-57], spikes := [False]\<rparr>)"
  by (simp add: lif_eval)

lemma LIFs_tick_2:
  "new_iteration LIF (scenario\<lparr>v := [-57], spikes := [False]\<rparr>)
     = Inr (scenario\<lparr>v := [-49.8], spikes := [False]\<rparr>)"
  by (simp add: lif_eval)

lemma LIFs_tick_3:
  "new_iteration LIF (scenario\<lparr>v := [-49.8], spikes := [False]\<rparr>)
     = Inr (scenario\<lparr>v := [-57], spikes := [True]\<rparr>)"
  by (simp add: lif_eval)

lemma LIFs_tick_4:
  "new_iteration LIF (scenario\<lparr>v := [-57], spikes := [True]\<rparr>)
     = Inr (scenario\<lparr>v := [-49.8], spikes := [False]\<rparr>)"
  by (simp add: lif_eval)

lemma neurons_LIF_periodic:

  "neurons_LIF_new_iteration scenario = Inr (scenario\<lparr>v := [-57], spikes := [False]\<rparr>)
   \<and> neurons_LIF_integrated (scenario\<lparr>v := [-57], spikes := [False]\<rparr>) = Inr [-49.8]
   \<and> neurons_LIF_new_iteration (scenario\<lparr>v := [-57], spikes := [False]\<rparr>)
       = Inr (scenario\<lparr>v := [-65], spikes := [True]\<rparr>)
   \<and> neurons_LIF_new_iteration (scenario\<lparr>v := [-65], spikes := [True]\<rparr>)
       = Inr (scenario\<lparr>v := [-57], spikes := [False]\<rparr>)
   \<and> (\<forall>k. ticks (k + 2) (scenario\<lparr>v := [-57], spikes := [False]\<rparr>)
            = ticks k (scenario\<lparr>v := [-57], spikes := [False]\<rparr>))
   \<and> (\<forall>k. ticks (2 * k + 1) scenario = Inr (scenario\<lparr>v := [-57], spikes := [False]\<rparr>)
          \<and> ticks (2 * k + 2) scenario = Inr (scenario\<lparr>v := [-65], spikes := [True]\<rparr>))"
proof -
  let ?a = "scenario\<lparr>v := [-57], spikes := [False]\<rparr>"
  let ?b = "scenario\<lparr>v := [-65], spikes := [True]\<rparr>"
  have i: "neurons_LIF_integrated ?a = Inr [-49.8]"
    by (simp add: lif_eval)
  have odd: "ticks (2 * k) ?a = Inr ?a" for k
    by (induction k) (simp_all add: scenario_tick_2 scenario_tick_3)
  have o1: "ticks (2 * k + 1) scenario = Inr ?a" for k
    using odd [of k] by (simp add: scenario_tick_1)
  have o2: "ticks (2 * k + 2) scenario = Inr ?b" for k
  proof -
    have "ticks (2 * k + 2) scenario = ticks (Suc (2 * k)) ?a"
      by (simp add: scenario_tick_1)
    also have "\<dots> = ticks (2 * k) ?b"
      by (simp add: scenario_tick_2)
    also have "\<dots> = Inr ?b"
      by (induction k) (simp_all add: scenario_tick_2 scenario_tick_3)
    finally show ?thesis .
  qed
  show ?thesis
    using scenario_tick_1 scenario_tick_2 scenario_tick_3 scenario_period i o1 o2 by blast
qed

lemma LIFs_periodic:
  "LIFs_ticks LIF (2 * k + 2) scenario = Inr (scenario\<lparr>v := [-49.8], spikes := [False]\<rparr>)
   \<and> LIFs_ticks LIF (2 * k + 3) scenario = Inr (scenario\<lparr>v := [-57], spikes := [True]\<rparr>)"
proof -
  define a where "a = scenario\<lparr>v := [-57], spikes := [False]\<rparr>"
  define b where "b = scenario\<lparr>v := [-49.8], spikes := [False]\<rparr>"
  define c where "c = scenario\<lparr>v := [-57], spikes := [True]\<rparr>"
  have t1: "new_iteration LIF scenario = Inr a"
    unfolding a_def by (rule LIFs_tick_1)
  have t2: "new_iteration LIF a = Inr b"
    unfolding a_def b_def by (rule LIFs_tick_2)
  have t3: "new_iteration LIF b = Inr c"
    unfolding b_def c_def by (rule LIFs_tick_3)
  have t4: "new_iteration LIF c = Inr b"
    unfolding b_def c_def by (rule LIFs_tick_4)
  have even: "LIFs_ticks LIF (2 * k) b = Inr b" for k
    by (induction k) (simp_all add: t3 t4 del: new_iteration.simps)
  have odd: "LIFs_ticks LIF (Suc (2 * k)) b = Inr c" for k
  proof (induction k)
    case 0
    show ?case by (simp add: t3 del: new_iteration.simps)
  next
    case (Suc k)
    then show ?case by (simp add: t3 t4 del: new_iteration.simps)
  qed
  have two: "LIFs_ticks LIF (2 * k + 2) scenario = LIFs_ticks LIF (2 * k) b"
    by (simp add: t1 t2 del: new_iteration.simps)
  have three: "LIFs_ticks LIF (2 * k + 3) scenario = LIFs_ticks LIF (Suc (2 * k)) b"
    by (simp add: t1 t2 numeral_3_eq_3 del: new_iteration.simps)
  show ?thesis
    using even [of k] odd [of k] two three by (simp add: b_def c_def)
qed

text \<open>
  C3, as the specification states it, fails for the base \<open>LIF\<close> class of \<open>LIFs.py\<close>, one
  of the two implementations it is about: there tick 2 ends at \<open>-49.8\<close> without a spike,
  not at \<open>-65\<close> with one.
\<close>

theorem periodic_firing_counterexample:
  "new_iteration LIF scenario = Inr (scenario\<lparr>v := [-57], spikes := [False]\<rparr>)
   \<and> new_iteration LIF (scenario\<lparr>v := [-57], spikes := [False]\<rparr>)
       = Inr (scenario\<lparr>v := [-49.8], spikes := [False]\<rparr>)
   \<and> v (scenario\<lparr>v := [-49.8], spikes := [False]\<rparr>) \<noteq> [-65]
   \<and> spikes (scenario\<lparr>v := [-49.8], spikes := [False]\<rparr>) \<noteq> [True]"
  by (simp add: lif_eval)

text \<open>
  C3, amended. Under \<open>neurons/LIF.py\<close>, the implementation that has \<open>dt\<close> and integrates
  before it detects and resets, the sequence is the one of the claim: tick 1 ends at
  \<open>-57\<close> without a spike; tick 2 integrates to \<open>-49.8\<close>, detects the spike there and ends
  at \<open>-65\<close>; tick 3 is tick 1 again and tick 4 is tick 2 again; every odd tick ends in
  the first state and every even tick in the second. Under the base \<open>LIF\<close> class of
  \<open>LIFs.py\<close>, which detects and resets before it integrates, tick 1 ends at \<open>-57\<close>
  without a spike, tick 2 at \<open>-49.8\<close> without a spike, tick 3 at \<open>-57\<close> with a spike,
  tick 4 at \<open>-49.8\<close> without a spike; from tick 2 on every even tick ends in the state
  of tick 2 and every odd tick in the state of tick 3.
\<close>

theorem periodic_firing_amended:
  "(neurons_LIF_new_iteration scenario = Inr (scenario\<lparr>v := [-57], spikes := [False]\<rparr>)
    \<and> neurons_LIF_integrated (scenario\<lparr>v := [-57], spikes := [False]\<rparr>) = Inr [-49.8]
    \<and> neurons_LIF_new_iteration (scenario\<lparr>v := [-57], spikes := [False]\<rparr>)
        = Inr (scenario\<lparr>v := [-65], spikes := [True]\<rparr>)
    \<and> neurons_LIF_new_iteration (scenario\<lparr>v := [-65], spikes := [True]\<rparr>)
        = Inr (scenario\<lparr>v := [-57], spikes := [False]\<rparr>)
    \<and> (\<forall>k. ticks (2 * k + 1) scenario = Inr (scenario\<lparr>v := [-57], spikes := [False]\<rparr>)
           \<and> ticks (2 * k + 2) scenario = Inr (scenario\<lparr>v := [-65], spikes := [True]\<rparr>)))
   \<and> (new_iteration LIF scenario = Inr (scenario\<lparr>v := [-57], spikes := [False]\<rparr>)
    \<and> new_iteration LIF (scenario\<lparr>v := [-57], spikes := [False]\<rparr>)
        = Inr (scenario\<lparr>v := [-49.8], spikes := [False]\<rparr>)
    \<and> new_iteration LIF (scenario\<lparr>v := [-49.8], spikes := [False]\<rparr>)
        = Inr (scenario\<lparr>v := [-57], spikes := [True]\<rparr>)
    \<and> new_iteration LIF (scenario\<lparr>v := [-57], spikes := [True]\<rparr>)
        = Inr (scenario\<lparr>v := [-49.8], spikes := [False]\<rparr>)
    \<and> (\<forall>k. LIFs_ticks LIF (2 * k + 2) scenario = Inr (scenario\<lparr>v := [-49.8], spikes := [False]\<rparr>)
           \<and> LIFs_ticks LIF (2 * k + 3) scenario = Inr (scenario\<lparr>v := [-57], spikes := [True]\<rparr>)))"
  using neurons_LIF_periodic LIFs_tick_1 LIFs_tick_2 LIFs_tick_3 LIFs_tick_4 LIFs_periodic
  by blast

section \<open>Plasticity\<close>

subsection \<open>The weight bound\<close>

text \<open>
  What \<open>np.clip\<close> does to one element, for finite bounds \<open>lo \<le> hi\<close>: an infinite element
  is clipped to a bound, and an element is NaN after clipping exactly when it was NaN
  before.
\<close>

lemma clip_element:
  "lo \<le> hi \<Longrightarrow> f_minimum (Finite hi) (f_maximum x (Finite lo)) =
     (case x of Finite a \<Rightarrow> Finite (min hi (max a lo)) | PosInf \<Rightarrow> Finite hi
      | NegInf \<Rightarrow> Finite lo | NaN \<Rightarrow> NaN)"
  by (cases x) (auto simp: f_minimum_def f_maximum_def)


lemma clip_NaN:
  assumes "lo \<le> hi" and "i < length (data a)"
  shows "(data (clip a lo hi) ! i = NaN) = (data a ! i = NaN)"
  using assms by (cases "data a ! i") (simp_all add: clip_def nd_map_def clip_element)












subsection \<open>The dense update\<close>

text \<open>
  The traces after a tick, for a projection between two different populations whose
  vectors have one length: \<open>trace += (-trace / tau + spikes) * dt\<close>, with \<open>tau_plus\<close> for
  the source and \<open>tau_minus\<close> for the destination.
\<close>

lemma update_traces_distinct:
  assumes "update_traces st sy = Inr st'" and "src sy \<noteq> dst sy"
    and "length (spikes (st (src sy))) = length (trace (st (src sy)))"
    and "length (spikes (st (dst sy))) = length (trace (st (dst sy)))"
  shows "trace (st' (src sy))
           = map2 (\<lambda>x b. x + (- x / tau_plus sy + of_bool b) * dt sy)
               (trace (st (src sy))) (spikes (st (src sy)))"
    and "trace (st' (dst sy))
           = map2 (\<lambda>x b. x + (- x / tau_minus sy + of_bool b) * dt sy)
               (trace (st (dst sy))) (spikes (st (dst sy)))"
  using assms
  by (auto simp: update_traces_def vec_eval Let_def zip_map1 zip_map2 map_zip_map map_zip_map2
      split: sum.splits if_splits intro!: nth_equalityI)

text \<open>
  C4 does not hold of the code: \<open>dw_minus\<close> and \<open>dw_plus\<close> are elementwise products of
  two vectors, not outer products. Between two populations of two neurons where source
  neuron 0 and destination neuron 1 have spiked, the specification's update raises
  \<open>W[1][0]\<close> by \<open>a_plus - a_minus = 1\<close>, and the code leaves \<open>W\<close> unchanged; between a
  source of three neurons and a destination of two, the code raises \<open>ValueError\<close>.
\<close>

theorem dense_update_not_outer_product:
  "STDP_new_iteration two_pops dense_projection
     = Inr (two_pops(0 := (two_pops 0)\<lparr>trace := [1, 0]\<rparr>, 1 := (two_pops 1)\<lparr>trace := [0, 1]\<rparr>),
            dense_projection)
   \<and> learning_STDP_new_iteration two_pops dense_projection
     = Inr (two_pops(0 := (two_pops 0)\<lparr>trace := [1, 0]\<rparr>, 1 := (two_pops 1)\<lparr>trace := [0, 1]\<rparr>),
            dense_projection)
   \<and> W dense_projection = \<lparr>shape = [2, 2], data = map Finite [0, 0, 0, 0]\<rparr>
   \<and> spec_dense_W (two_pops(0 := (two_pops 0)\<lparr>trace := [1, 0]\<rparr>, 1 := (two_pops 1)\<lparr>trace := [0, 1]\<rparr>))
        dense_projection = \<lparr>shape = [2, 2], data = map Finite [0, 0, 1, 0]\<rparr>
   \<and> STDP_new_iteration uneven_pops uneven_projection = Inl ValueError
   \<and> learning_STDP_new_iteration uneven_pops uneven_projection = Inl ValueError"
  by (simp add: stdp_eval nd_eval vec_eval cfg_eval spec_dense_W_def spec_dense_dw_def Let_def upt_rec)

subsection \<open>The convolutional update\<close>

lemma zeros_with_block_shape:
  "zeros_with_block shp starts blk x = Inr a \<Longrightarrow> shape a = shp"
  by (auto simp: zeros_with_block_def split: if_splits)

lemma sliding_window_view_pair:
  "length (shape x) = 4 \<Longrightarrow> sliding_window_view x [kh, kw] = Inl ValueError"
  by (simp add: sliding_window_view_def)

lemma conv2d_update_raises: "\<exists>e. conv2d_update st sy = Inl e"
proof -
  have "conv2d_update st sy = Inr r \<Longrightarrow> False" for r
    unfolding conv2d_update_def Let_def
    by (auto split: if_splits sum.splits
        dest!: zeros_with_block_shape simp: sliding_window_view_pair)
  then show ?thesis
    by (cases "conv2d_update st sy") auto
qed

lemma STDP_conv2d_raises:
  "''conv2d'' \<in> set (tags sy) \<Longrightarrow> \<exists>e. STDP_new_iteration st sy = Inl e"
proof -
  assume c: "''conv2d'' \<in> set (tags sy)"
  show ?thesis
  proof (cases "update_traces st sy")
    case (Inl e)
    then show ?thesis by (simp add: STDP_new_iteration_def)
  next
    case (Inr st')
    obtain e where "conv2d_update st' sy = Inl e"
      using conv2d_update_raises by blast
    with Inr c show ?thesis by (simp add: STDP_new_iteration_def)
  qed
qed

text \<open>
  Without the tag the same kernel takes the dense branch: the vectors of four elements
  are broadcast against the kernel of shape \<open>(1, 1, 1, 1)\<close> and \<open>W\<close> is assigned a tensor
  of shape \<open>(1, 1, 1, 4)\<close>.
\<close>

lemma untagged_kernel_changes_shape:
  "STDP_new_iteration image_pops untagged_plastic_projection
     = Inr (image_pops(0 := (image_pops 0)\<lparr>trace := [1, 0, 0, 1]\<rparr>,
                       1 := (image_pops 1)\<lparr>trace := [0, 1, 1, 0]\<rparr>),
            untagged_plastic_projection
              \<lparr>W := \<lparr>shape = [1, 1, 1, 4], data = map Finite [3, 3, 3, 3]\<rparr>\<rparr>)"
  by (simp add: stdp_eval nd_eval vec_eval cfg_eval Let_def upt_rec)

text \<open>
  C5 does not hold of the code: \<open>conv2d_update\<close> raises on every input (the window view
  of a four-axis array is asked for with the two extents of \<open>kernel_size\<close>), no statement
  reduces over the spatial axis, and \<open>W\<close> is never assigned. On the 2 by 2 images, and on
  the populations of two neurons, the tick raises \<open>ValueError\<close>.
\<close>

theorem conv2d_update_not_reduced:
  "STDP_new_iteration image_pops plastic_conv_projection = Inl ValueError
   \<and> STDP_new_iteration two_pops plastic_conv_projection = Inl ValueError"
  by (simp add: stdp_eval nd_eval vec_eval cfg_eval Let_def upt_rec int_sqrt_def)

section \<open>Initial state\<close>

lemma LIFs_initial_state:
  "v (set_variables var n) = replicate (size_n n) (v_rest n)
   \<and> spikes (set_variables var n) = replicate (size_n n) False"
  by (cases var) (simp_all add: LIF_initialize_def get_neuron_vec_def Let_def)

lemma AELIF_initial_adaptation: "A (set_variables AELIF n) = replicate (size_n n) 0"
  by (simp add: LIF_initialize_def get_neuron_vec_def Let_def)

lemma STDP_initial_traces:
  "trace (STDP_set_variables 0 st sy (src sy)) = replicate (size_n (st (src sy))) 0
   \<and> trace (STDP_set_variables 0 st sy (dst sy)) = replicate (size_n (st (dst sy))) 0"
  by (simp add: STDP_set_variables_def get_neuron_vec_def Let_def)

text \<open>
  C6 does not hold of \<open>neurons/LIF.py\<close>: its \<open>set_variables\<close> multiplies the host's
  default vector by \<open>v_rest\<close> and compares it with the threshold. With the default fill 0
  the neuron of the scenario starts at \<open>v = 0\<close> with its spike flag set, and no default
  fill gives both \<open>v = v_rest\<close> and a clear spike flag; \<open>LIFs.py\<close> gives both.
\<close>

theorem neurons_LIF_initial_state:
  "v (neurons_LIF_set_variables 0 scenario) = [0]
   \<and> spikes (neurons_LIF_set_variables 0 scenario) = [True]
   \<and> v_rest scenario = -65
   \<and> (\<forall>d. \<not> (v (neurons_LIF_set_variables d scenario) = [v_rest scenario]
              \<and> spikes (neurons_LIF_set_variables d scenario) = [False]))
   \<and> v (set_variables LIF scenario) = [v_rest scenario]
   \<and> spikes (set_variables LIF scenario) = [False]"
  by (simp add: neurons_LIF_set_variables_def LIF_initialize_def get_neuron_vec_def scenario_def)

section \<open>Convolution\<close>

subsection \<open>The integer square root\<close>

text \<open>\<open>int_sqrt\<close> is the floor of the square root, the value of \<open>int(np.sqrt(n))\<close>.\<close>

lemma int_sqrt_unique:
  assumes "r * r \<le> n" and "n < Suc r * Suc r"
  shows "int_sqrt n = r"
proof -
  have rn: "r \<le> n"
  proof (cases r)
    case 0
    then show ?thesis by simp
  next
    case (Suc q)
    then have "r \<le> r * r" by simp
    then show ?thesis using assms(1) by (rule le_trans)
  qed
  have split: "[1..<Suc n] = [1..<Suc r] @ [Suc r..<Suc n]"
    using rn upt_add_eq_append [of 1 "Suc r" "n - r"] by simp
  have low: "filter (\<lambda>k. k * k \<le> n) [1..<Suc r] = [1..<Suc r]"
  proof -
    have "k * k \<le> n" if "k \<in> set [1..<Suc r]" for k
    proof -
      from that have "k \<le> r" by auto
      then have "k * k \<le> r * r"
        using mult_le_mono [of k r k r] by blast
      with assms(1) show ?thesis by linarith
    qed
    then show ?thesis by (intro filter_True ballI)
  qed
  have high: "filter (\<lambda>k. k * k \<le> n) [Suc r..<Suc n] = []"
  proof -
    have "\<not> k * k \<le> n" if "k \<in> set [Suc r..<Suc n]" for k
    proof -
      from that have "Suc r \<le> k" by auto
      then have "Suc r * Suc r \<le> k * k"
        using mult_le_mono [of "Suc r" k "Suc r" k] by blast
      with assms(2) show ?thesis by linarith
    qed
    then show ?thesis by (intro filter_False ballI)
  qed
  show ?thesis
    unfolding int_sqrt_def by (simp only: split filter_append low high) simp
qed

lemma int_sqrt_floor: "int_sqrt n * int_sqrt n \<le> n \<and> n < Suc (int_sqrt n) * Suc (int_sqrt n)"
proof -
  define r where "r = (LEAST k. n < Suc k * Suc k)"
  have ex: "n < Suc n * Suc n" by simp
  have up: "n < Suc r * Suc r"
    unfolding r_def using ex by (rule LeastI)
  have lo: "r * r \<le> n"
  proof (cases r)
    case 0
    then show ?thesis by simp
  next
    case (Suc q)
    then have "q < (LEAST k. n < Suc k * Suc k)" by (simp add: r_def)
    then have "\<not> n < Suc q * Suc q" by (rule not_less_Least)
    with Suc show ?thesis by simp
  qed
  show ?thesis
    using int_sqrt_unique [OF lo up] lo up by simp
qed

lemma int_sqrt_square: "int_sqrt (r * r) = r"
  by (rule int_sqrt_unique) simp_all

subsection \<open>Row-major enumeration\<close>

lemma concat_blocks:
  "concat (map (\<lambda>i. map (\<lambda>k. i * p + k) [0..<p]) [0..<d]) = [0..<d * p]"
proof (induction d)
  case 0
  then show ?case by simp
next
  case (Suc d)
  have "map (\<lambda>k. d * p + k) [0..<p] = [d * p..<d * p + p]"
    using map_add_upt [of "d * p" p] by (simp add: add.commute)
  then show ?case
    using Suc upt_add_eq_append [of 0 "d * p" p] by (simp add: add.commute)
qed

lemma indices_offset: "map (offset sh) (indices sh) = [0..<prod_list sh]"
proof (induction sh)
  case Nil
  then show ?case by simp
next
  case (Cons d ds)
  have "map (offset (d # ds)) (indices (d # ds))
      = concat (map (\<lambda>i. map (\<lambda>k. i * prod_list ds + k) (map (offset ds) (indices ds))) [0..<d])"
    by (simp add: map_concat o_def)
  then show ?case
    using Cons by (simp add: concat_blocks)
qed

lemma broadcast_rev_same: "broadcast_rev a a = Some a"
  by (induction a) (simp_all add: broadcast_dim_def)

lemma broadcast_shapes_same: "broadcast_shapes a a = Some a"
  by (simp add: broadcast_shapes_def broadcast_rev_same)

subsection \<open>A 1 by 1 kernel on one channel\<close>

lemma indices_image:
  "idx \<in> set (indices [1, r, r, 1]) \<Longrightarrow> \<exists>i j. i < r \<and> j < r \<and> idx = [0, i, j, 0]"
  by auto

lemma bget_image:
  assumes "i < r" "j < r"
  shows "bget \<lparr>shape = [1, r, r, 1], data = xs\<rparr> [0, i, j, 0] = xs ! offset [1, r, r, 1] [0, i, j, 0]"
  using assms by (cases "r = 1") (simp_all add: bget_def nd_get_def)


lemma padded_copy:
  assumes "length xs = r * r"
  shows "zeros_with_block [1, r, r, 1] [0, 0, 0, 0] [1, r, r, 1] \<lparr>shape = [1, r, r, 1], data = xs\<rparr>
           = Inr \<lparr>shape = [1, r, r, 1], data = xs\<rparr>"
proof -
  have "map (\<lambda>idx. if list_all (\<lambda>(i, s0, b). s0 \<le> i \<and> i < s0 + b) (zip idx (zip [0, 0, 0, 0] [1, r, r, 1]))
                   then bget \<lparr>shape = [1, r, r, 1], data = xs\<rparr> (map2 (-) idx [0, 0, 0, 0]) else 0)
          (indices [1, r, r, 1])
      = map (\<lambda>idx. xs ! offset [1, r, r, 1] idx) (indices [1, r, r, 1])"
  proof (rule map_cong [OF refl])
    fix idx assume "idx \<in> set (indices [1, r, r, 1])"
    then obtain i j where ij: "i < r" "j < r" "idx = [0, i, j, 0]"
      using indices_image by blast
    then show "(if list_all (\<lambda>(i, s0, b). s0 \<le> i \<and> i < s0 + b) (zip idx (zip [0, 0, 0, 0] [1, r, r, 1]))
                   then bget \<lparr>shape = [1, r, r, 1], data = xs\<rparr> (map2 (-) idx [0, 0, 0, 0]) else 0)
         = xs ! offset [1, r, r, 1] idx"
      using bget_image [of i r j xs] by simp
  qed
  also have "\<dots> = map ((!) xs) (map (offset [1, r, r, 1]) (indices [1, r, r, 1]))"
    by (simp only: map_map o_def)
  also have "\<dots> = xs"
    unfolding indices_offset using assms map_nth [of xs] by simp
  finally have eq: "map (\<lambda>idx. if list_all (\<lambda>(i, s0, b). s0 \<le> i \<and> i < s0 + b) (zip idx (zip [0, 0, 0, 0] [1, r, r, 1]))
                   then bget \<lparr>shape = [1, r, r, 1], data = xs\<rparr> (map2 (-) idx [0, 0, 0, 0]) else 0)
          (indices [1, r, r, 1]) = xs" .
  show ?thesis
    unfolding zeros_with_block_def
    by (simp only: eq broadcast_shapes_same ndarray.select_convs simp_thms if_False)
qed


lemma conv2d_window:
  assumes "length xs = r * r"
  shows "map (\<lambda>idx. sum_list (map (\<lambda>win.
              nd_get \<lparr>shape = [1, r, r, 1], data = xs\<rparr> [idx ! 0, idx ! 1 + win ! 0, idx ! 2 + win ! 1, win ! 2]
                * nd_get \<lparr>shape = [1, 1, 1, 1], data = [k]\<rparr> (win @ drop 3 idx)) (indices [1, 1, 1])))
          (indices [1, r, r, 1])
      = map (\<lambda>x. x * k) xs"
proof -
  let ?img = "\<lparr>shape = [1, r, r, 1], data = xs\<rparr>"
  let ?ker = "\<lparr>shape = [1, 1, 1, 1], data = [k]\<rparr>"
  have "map (\<lambda>idx. sum_list (map (\<lambda>win.
              nd_get ?img [idx ! 0, idx ! 1 + win ! 0, idx ! 2 + win ! 1, win ! 2]
                * nd_get ?ker (win @ drop 3 idx)) (indices [1, 1, 1])))
          (indices [1, r, r, 1])
      = map (\<lambda>idx. xs ! offset [1, r, r, 1] idx * k) (indices [1, r, r, 1])"
  proof (rule map_cong [OF refl])
    fix idx assume "idx \<in> set (indices [1, r, r, 1])"
    then obtain i j where ij: "i < r" "j < r" "idx = [0, i, j, 0]"
      using indices_image by blast
    then show "sum_list (map (\<lambda>win.
              nd_get ?img [idx ! 0, idx ! 1 + win ! 0, idx ! 2 + win ! 1, win ! 2]
                * nd_get ?ker (win @ drop 3 idx)) (indices [1, 1, 1]))
         = xs ! offset [1, r, r, 1] idx * k"
      by (simp add: nd_get_def)
  qed
  also have "\<dots> = map (\<lambda>x. x * k) (map ((!) xs) (map (offset [1, r, r, 1]) (indices [1, r, r, 1])))"
    by (simp only: map_map o_def)
  also have "\<dots> = map (\<lambda>x. x * k) xs"
    unfolding indices_offset using assms map_nth [of xs] by simp
  finally show ?thesis .
qed


lemma conv2d_pointwise:
  assumes "length xs = r * r"
  shows "Conv2D_conv2d \<lparr>shape = [1, r, r, 1], data = xs\<rparr> \<lparr>shape = [1, 1, 1, 1], data = [k]\<rparr> (0, 0)
           = Inr \<lparr>shape = [1, r, r, 1], data = map (\<lambda>x. x * k) xs\<rparr>"
proof -
  have "Conv2D_conv2d \<lparr>shape = [1, r, r, 1], data = xs\<rparr> \<lparr>shape = [1, 1, 1, 1], data = [k]\<rparr> (0, 0)
      = Inr \<lparr>shape = [1, r, r, 1],
             data = map (\<lambda>idx. sum_list (map (\<lambda>win.
              nd_get \<lparr>shape = [1, r, r, 1], data = xs\<rparr> [idx ! 0, idx ! 1 + win ! 0, idx ! 2 + win ! 1, win ! 2]
                * nd_get \<lparr>shape = [1, 1, 1, 1], data = [k]\<rparr> (win @ drop 3 idx)) (indices [1, 1, 1])))
          (indices [1, r, r, 1])\<rparr>"
    unfolding Conv2D_conv2d_def
    by (simp add: padded_copy [OF assms, simplified] Let_def del: indices.simps)
  then show ?thesis
    by (simp only: conv2d_window [OF assms])
qed

lemma Conv2D_new_iteration_pointwise:
  assumes "is1d sy" and "pad sy = (0, 0)" and "W sy = \<lparr>shape = [1, 1, 1, 1], data = [k]\<rparr>"
    and "int_sqrt (size_n (st (src sy))) = r" and "length (s (st (src sy))) = r * r"
  shows "Conv2D_new_iteration st sy =
     (case iadd (I (st (dst sy))) (map (\<lambda>x. x * k) (s (st (src sy)))) of
        Inl e \<Rightarrow> Inl e
      | Inr i' \<Rightarrow> Inr (st(dst sy := (st (dst sy))\<lparr>I := i'\<rparr>), sy))"
  unfolding Conv2D_new_iteration_def Let_def
  by (simp only: assms conv2d_pointwise [OF assms(5)] if_True if_False simp_thms
      sum.case ndarray.select_convs)

lemma image_forward:
  "Conv2D_new_iteration image_pops conv_projection
     = Inr (image_pops(1 := (image_pops 1)\<lparr>I := [3, 0, 0, 3]\<rparr>), conv_projection)"
proof -
  have "Conv2D_new_iteration image_pops conv_projection =
     (case iadd (I (image_pops (dst conv_projection)))
             (map (\<lambda>x. x * 3) (s (image_pops (src conv_projection)))) of
        Inl e \<Rightarrow> Inl e
      | Inr i' \<Rightarrow> Inr (image_pops(dst conv_projection := (image_pops (dst conv_projection))\<lparr>I := i'\<rparr>),
                       conv_projection))"
    by (rule Conv2D_new_iteration_pointwise [where r = 2])
      (simp_all add: cfg_eval int_sqrt_def upt_rec as_float_def)
  then show ?thesis
    by (simp add: cfg_eval vec_eval)
qed

text \<open>
  C8: with a 1 by 1 kernel holding the single value \<open>k\<close>, one input channel, one filter
  and no padding, the convolution of an \<open>r\<close> by \<open>r\<close> activity is the activity scaled
  elementwise by \<open>k\<close>, and the forward pass adds exactly that to the destination's
  current.
\<close>

theorem Conv2D_pointwise_scaling:
  assumes "is1d sy" and "pad sy = (0, 0)" and "W sy = \<lparr>shape = [1, 1, 1, 1], data = [k]\<rparr>"
    and "int_sqrt (size_n (st (src sy))) = r" and "length (s (st (src sy))) = r * r"
  shows "Conv2D_conv2d \<lparr>shape = [1, r, r, 1], data = s (st (src sy))\<rparr> (W sy) (pad sy)
           = Inr \<lparr>shape = [1, r, r, 1], data = map (\<lambda>x. x * k) (s (st (src sy)))\<rparr>
    \<and> Conv2D_new_iteration st sy =
         (case iadd (I (st (dst sy))) (map (\<lambda>x. x * k) (s (st (src sy)))) of
            Inl e \<Rightarrow> Inl e
          | Inr i' \<Rightarrow> Inr (st(dst sy := (st (dst sy))\<lparr>I := i'\<rparr>), sy))"
  using conv2d_pointwise [OF assms(5)] Conv2D_new_iteration_pointwise [where sy = sy and st = st and k = k and r = r, OF assms]
  by (simp only: assms(2,3) simp_thms)

theorem Conv2D_pointwise_scaling_witness:
  "is1d conv_projection \<and> pad conv_projection = (0, 0)
   \<and> W conv_projection = \<lparr>shape = [1, 1, 1, 1], data = [3]\<rparr>
   \<and> int_sqrt (size_n (image_pops (src conv_projection))) = 2
   \<and> length (s (image_pops (src conv_projection))) = 2 * 2
   \<and> s (image_pops (src conv_projection)) = [1, 0, 0, 1]
   \<and> Conv2D_conv2d \<lparr>shape = [1, 2, 2, 1], data = [1, 0, 0, 1]\<rparr> (W conv_projection) (0, 0)
        = Inr \<lparr>shape = [1, 2, 2, 1], data = [3, 0, 0, 3]\<rparr>
   \<and> Conv2D_new_iteration image_pops conv_projection
        = Inr (image_pops(1 := (image_pops 1)\<lparr>I := [3, 0, 0, 3]\<rparr>), conv_projection)"
proof -
  have h: "is1d conv_projection" "pad conv_projection = (0, 0)"
    "W conv_projection = \<lparr>shape = [1, 1, 1, 1], data = [3]\<rparr>"
    "int_sqrt (size_n (image_pops (src conv_projection))) = 2"
    "length (s (image_pops (src conv_projection))) = 2 * 2"
    by (simp_all add: cfg_eval int_sqrt_def upt_rec as_float_def)
  have x: "s (image_pops (src conv_projection)) = [1, 0, 0, 1]"
    by (simp add: cfg_eval as_float_def)
  show ?thesis
    using h x Conv2D_pointwise_scaling [where sy = conv_projection and st = image_pops and k = 3 and r = 2, OF h]
    by (simp add: cfg_eval vec_eval)
qed

subsection \<open>The projection that \<open>set_variables\<close> leaves\<close>

text \<open>
  Without padding, \<open>Conv2D.set_variables\<close> leaves \<open>pad = (0, 0)\<close>, \<open>is1d\<close> set, a kernel
  with one input channel, and the projection's tags as they were.
\<close>

lemma Conv2D_set_variables_no_padding:
  assumes "Conv2D_set_variables False uniform st sy = Inr sy'"
  shows "is1d sy' \<and> pad sy' = (0, 0)
    \<and> shape (W sy') = [fst (kernel_size sy), snd (kernel_size sy), 1, n_filters sy]
    \<and> tags sy' = tags sy"
  using assms
  by (auto simp: Conv2D_set_variables_def Let_def split: if_splits)

subsection \<open>The frame of the forward pass\<close>

lemma Conv2D_forward_frame_aux:
  assumes "Conv2D_new_iteration st sy = Inr (st', sy')"
  shows "sy' = sy" and "\<exists>i'. st' = st(dst sy := (st (dst sy))\<lparr>I := i'\<rparr>)"
  using assms by (auto simp: Conv2D_new_iteration_def Let_def split: if_splits sum.splits)

text \<open>
  C9: a forward pass that completes returns the projection as it was (kernel \<open>W\<close>,
  padding, kernel size, every configuration field), leaves every population other than
  the destination as it was, changes nothing of the destination but its current \<open>I\<close>,
  and so leaves the spikes and the activity \<open>s\<close> of every population as they were.
\<close>

theorem Conv2D_forward_frame:
  assumes "Conv2D_new_iteration st sy = Inr (st', sy')"
  shows "sy' = sy
    \<and> (\<forall>p. p \<noteq> dst sy \<longrightarrow> st' p = st p)
    \<and> st' (dst sy) = (st (dst sy))\<lparr>I := I (st' (dst sy))\<rparr>
    \<and> (\<forall>p. spikes (st' p) = spikes (st p) \<and> s (st' p) = s (st p))"
proof -
  obtain i' where "st' = st(dst sy := (st (dst sy))\<lparr>I := i'\<rparr>)"
    using Conv2D_forward_frame_aux(2) [OF assms] by blast
  then show ?thesis
    using Conv2D_forward_frame_aux(1) [OF assms] by simp
qed

theorem Conv2D_forward_frame_witness:
  "Conv2D_new_iteration image_pops conv_projection
     = Inr (image_pops(1 := (image_pops 1)\<lparr>I := [3, 0, 0, 3]\<rparr>), conv_projection)
   \<and> (image_pops(1 := (image_pops 1)\<lparr>I := [3, 0, 0, 3]\<rparr>)) 0 = image_pops 0
   \<and> I ((image_pops(1 := (image_pops 1)\<lparr>I := [3, 0, 0, 3]\<rparr>)) 1) = [3, 0, 0, 3]
   \<and> spikes ((image_pops(1 := (image_pops 1)\<lparr>I := [3, 0, 0, 3]\<rparr>)) 1) = spikes (image_pops 1)
   \<and> s ((image_pops(1 := (image_pops 1)\<lparr>I := [3, 0, 0, 3]\<rparr>)) 0) = s (image_pops 0)"
  using image_forward Conv2D_forward_frame [OF image_forward] by simp

end
